theory Spec2Isabelle
  imports Main "HOL-Library.Word" "HOL-Library.Multiset"
begin

unbundle bit_operations_syntax

section \<open>Errors\<close>

text \<open>
  A Go \<open>error\<close> is an interface value: \<open>nil\<close> or a non-nil error. The non-nil errors
  of the package are the five package-level values created with \<open>errors.New\<close>, the
  failures returned by a dependency's \<open>Health\<close> (opaque to the package, here carrying
  their message) and the value built by \<open>errors.Join\<close>, which wraps a list of errors.
\<close>

datatype errval =
    errNoYetChecked
  | errMissTargets
  | errMissGroup
  | errEmptyGroup
  | errWrongCheckPeriod
  | CheckFailure string
  | joinError "errval list"

type_synonym error = "errval option"

text \<open>
  \<open>errors.Join\<close> of the Go standard library: it counts the non-nil arguments, returns
  \<open>nil\<close> when there is none, and otherwise wraps the non-nil arguments, in order, in a
  \<open>joinError\<close>; \<open>nil\<close> arguments are discarded.
\<close>

fun nonNil :: "error list \<Rightarrow> errval list" where
  "nonNil [] = []"
| "nonNil (None # es) = nonNil es"
| "nonNil (Some e # es) = e # nonNil es"

definition errors_Join :: "error list \<Rightarrow> error" where
  "errors_Join errs =
     (let n = length (nonNil errs)
      in if n = 0 then None else Some (joinError (nonNil errs)))"

section \<open>Probe groups\<close>

text \<open>\<open>type ProbeGroup uint8\<close>, a bit mask.\<close>

type_synonym ProbeGroup = "8 word"

definition GroupCommon :: ProbeGroup where "GroupCommon = push_bit 0 1"
definition GroupStartup :: ProbeGroup where "GroupStartup = push_bit 1 1"
definition GroupLive :: ProbeGroup where "GroupLive = push_bit 2 1"
definition GroupReady :: ProbeGroup where "GroupReady = push_bit 3 1"

definition AllGroups :: ProbeGroup where
  "AllGroups = GroupCommon OR GroupStartup OR GroupLive OR GroupReady"

definition validate :: "ProbeGroup \<Rightarrow> error" where
  "validate pg =
     (if pg = 0 then Some errEmptyGroup
      else if (pg AND AllGroups) \<noteq> pg then Some errMissGroup
      else None)"

section \<open>Targets and the snapshot\<close>

text \<open>
  \<open>HealthCheckable\<close> is an interface supplied by the caller; the package never looks
  inside a service, so the service is a type parameter.
\<close>

record 'svc HealthCheckTarget =
  Service :: 'svc
  Groups :: ProbeGroup

record 'svc serviceCheckResult =
  target :: "'svc HealthCheckTarget"
  err :: error

record healthResult =
  startUp :: "error list"
  live :: "error list"
  ready :: "error list"

definition newHealthResult :: healthResult where
  "newHealthResult =
     \<lparr>startUp = [Some errNoYetChecked],
      live = [Some errNoYetChecked],
      ready = [Some errNoYetChecked]\<rparr>"

text \<open>\<open>add\<close> updates the receiver in place; the model returns the updated value.\<close>

definition add :: "healthResult \<Rightarrow> 'svc serviceCheckResult \<Rightarrow> healthResult" where
  "add hr res =
     (let hr1 = (if Groups (target res) AND GroupStartup \<noteq> 0
                 then hr\<lparr>startUp := startUp hr @ [err res]\<rparr> else hr);
          hr2 = (if Groups (target res) AND GroupLive \<noteq> 0
                 then hr1\<lparr>live := live hr1 @ [err res]\<rparr> else hr1)
      in if Groups (target res) AND GroupReady \<noteq> 0
         then hr2\<lparr>ready := ready hr2 @ [err res]\<rparr> else hr2)"

definition accureError :: "error list \<Rightarrow> error" where
  "accureError list = errors_Join list"

text \<open>
  The loop of \<open>accureNoError\<close> walks the list and returns \<open>nil\<close> at the first \<open>nil\<close>
  entry; when it runs to the end the whole list is joined.
\<close>

fun accureNoError_loop :: "error list \<Rightarrow> error list \<Rightarrow> error" where
  "accureNoError_loop [] list = errors_Join list"
| "accureNoError_loop (e # es) list =
     (if e = None then None else accureNoError_loop es list)"

definition accureNoError :: "error list \<Rightarrow> error" where
  "accureNoError list = accureNoError_loop list list"

text \<open>
  \<open>health\<close>: the \<open>switch\<close> takes the first case that matches; when none does,
  \<open>list\<close> keeps its zero value, the nil slice.
\<close>

definition health :: "healthResult \<Rightarrow> ProbeGroup \<Rightarrow> bool \<Rightarrow> error" where
  "health hr grp needAllHealthy =
     (let list =
        (if grp AND GroupLive \<noteq> 0 then live hr
         else if grp AND GroupReady \<noteq> 0 then ready hr
         else if grp AND GroupStartup \<noteq> 0 then startUp hr
         else [])
      in if needAllHealthy then accureError list else accureNoError list)"

text \<open>
  The list that the \<open>switch\<close> of \<open>health\<close> picks, on its own, so that properties can
  speak of "the selected bucket" (see \<open>health_selectedBucket\<close>).
\<close>

definition selectedBucket :: "healthResult \<Rightarrow> ProbeGroup \<Rightarrow> error list" where
  "selectedBucket hr grp =
     (if grp AND GroupLive \<noteq> 0 then live hr
      else if grp AND GroupReady \<noteq> 0 then ready hr
      else if grp AND GroupStartup \<noteq> 0 then startUp hr
      else [])"

section \<open>The inspector\<close>

text \<open>
  Of the \<open>Inspector\<close> the model keeps the registry, the poll period (a
  \<open>time.Duration\<close>, in nanoseconds) and the published snapshot behind the \<open>data\<close>
  pointer. The stop channels and the Prometheus gauge are left out: they belong to the
  scheduler and to metric reporting, and no function below reads them.
\<close>

record 'svc Inspector =
  targets :: "'svc HealthCheckTarget list"
  checkPeriod :: int
  data :: healthResult

definition defCheckPeriod :: int where
  "defCheckPeriod = 1000000000 * 15"

definition New :: "'svc HealthCheckTarget list \<Rightarrow> 'svc Inspector" where
  "New ts = \<lparr>targets = ts, checkPeriod = defCheckPeriod, data = newHealthResult\<rparr>"

text \<open>
  An \<open>Option\<close> is a function that may update the inspector and returns an error: the
  model returns the error together with the inspector after the call.
\<close>

fun WithTargets_loop :: "'svc HealthCheckTarget list \<Rightarrow> error" where
  "WithTargets_loop [] = None"
| "WithTargets_loop (t # ts) =
     (case validate (Groups t) of
        Some e \<Rightarrow> Some e
      | None \<Rightarrow> WithTargets_loop ts)"

definition WithTargets ::
  "'svc HealthCheckTarget list \<Rightarrow> 'svc Inspector \<Rightarrow> error \<times> 'svc Inspector" where
  "WithTargets ts i =
     (if length ts = 0 then (Some errMissTargets, i)
      else case WithTargets_loop ts of
             Some e \<Rightarrow> (Some e, i)
           | None \<Rightarrow> (None, i\<lparr>targets := ts\<rparr>))"

definition WithCheckPeriod :: "int \<Rightarrow> 'svc Inspector \<Rightarrow> error \<times> 'svc Inspector" where
  "WithCheckPeriod p i =
     (if p \<le> 0 then (Some errWrongCheckPeriod, i)
      else (None, i\<lparr>checkPeriod := p\<rparr>))"

text \<open>
  A caller configures an inspector by building it with \<open>New\<close> and applying options one
  after the other; an option that fails leaves the inspector as it was.
\<close>

datatype 'svc optionCall =
    CallWithTargets "'svc HealthCheckTarget list"
  | CallWithCheckPeriod int

fun applyOption :: "'svc optionCall \<Rightarrow> 'svc Inspector \<Rightarrow> error \<times> 'svc Inspector" where
  "applyOption (CallWithTargets ts) i = WithTargets ts i"
| "applyOption (CallWithCheckPeriod p) i = WithCheckPeriod p i"

fun configure :: "'svc Inspector \<Rightarrow> 'svc optionCall list \<Rightarrow> 'svc Inspector" where
  "configure i [] = i"
| "configure i (c # cs) = configure (snd (applyOption c i)) cs"

definition get :: "'svc Inspector \<Rightarrow> healthResult" where
  "get i = data i"

definition CheckGroup :: "'svc Inspector \<Rightarrow> ProbeGroup \<Rightarrow> bool \<Rightarrow> error" where
  "CheckGroup i grp needAllHealthy = (let res = get i in health res grp needAllHealthy)"

subsection \<open>One poll cycle\<close>

text \<open>
  \<open>check\<close> starts one goroutine per target; each sends the target and the outcome of
  its \<open>Health\<close> call on a channel, and the receiving loop adds the results to a
  snapshot that starts as the zero value \<open>healthResult{}\<close> (three nil slices), in the
  order in which they arrive. The outcomes and the arrival order are chosen by the
  environment, so \<open>check\<close> takes the received sequence \<open>rs\<close> as an argument;
  \<open>completes i rs\<close> says that \<open>rs\<close> holds one result for every target of the registry,
  in any order. The snapshot is published when the channel is closed.
\<close>

definition completes :: "'svc Inspector \<Rightarrow> 'svc serviceCheckResult list \<Rightarrow> bool" where
  "completes i rs \<longleftrightarrow> mset (map target rs) = mset (targets i)"

definition check :: "'svc Inspector \<Rightarrow> 'svc serviceCheckResult list \<Rightarrow> 'svc Inspector" where
  "check i rs =
     (let result = foldl add \<lparr>startUp = [], live = [], ready = []\<rparr> rs
      in i\<lparr>data := result\<rparr>)"

section \<open>The HTTP handler\<close>

text \<open>
  Of \<open>http.ResponseWriter\<close> the model keeps the status line and the body. As in
  \<open>net/http\<close>, the first \<open>WriteHeader\<close> fixes the status, and a \<open>Write\<close> before any
  \<open>WriteHeader\<close> sends \<open>StatusOK\<close> first.
\<close>

record ResponseWriter =
  status :: "nat option"
  body :: string

definition StatusOK :: nat where "StatusOK = 200"
definition StatusServiceUnavailable :: nat where "StatusServiceUnavailable = 503"

definition WriteHeader :: "nat \<Rightarrow> ResponseWriter \<Rightarrow> ResponseWriter" where
  "WriteHeader code w = (if status w = None then w\<lparr>status := Some code\<rparr> else w)"

definition Write :: "string \<Rightarrow> ResponseWriter \<Rightarrow> ResponseWriter" where
  "Write b w =
     (let w1 = (if status w = None then w\<lparr>status := Some StatusOK\<rparr> else w)
      in w1\<lparr>body := body w1 @ b\<rparr>)"

definition DefResponseProcessor :: "error \<Rightarrow> string" where
  "DefResponseProcessor e = (if e \<noteq> None then ''Unhealthy'' else ''OK'')"

text \<open>
  \<open>HealthHandler\<close> returns a closure over the inspector pointer; the closure reads the
  snapshot when a request arrives. The model is the closure's body, applied to the
  inspector at that moment and to the response writer; a nil \<open>toResponse\<close> is \<open>None\<close>.
\<close>

definition HealthHandler ::
  "'svc Inspector \<Rightarrow> ProbeGroup \<Rightarrow> bool \<Rightarrow> (error \<Rightarrow> string) option
     \<Rightarrow> ResponseWriter \<Rightarrow> ResponseWriter" where
  "HealthHandler i grp needAllHealthy toResponse w =
     (let toResponse1 = (case toResponse of None \<Rightarrow> DefResponseProcessor | Some f \<Rightarrow> f)
      in case CheckGroup i grp needAllHealthy of
           Some e \<Rightarrow> Write (toResponse1 (Some e)) (WriteHeader StatusOK w)
         | None \<Rightarrow> Write (toResponse1 None) (WriteHeader StatusServiceUnavailable w))"

section \<open>Properties\<close>

lemma Group_values:
  "GroupCommon = 1" "GroupStartup = 2" "GroupLive = 4" "GroupReady = 8" "AllGroups = 15"
  by (simp_all add: GroupCommon_def GroupStartup_def GroupLive_def GroupReady_def AllGroups_def)

lemma subset_AllGroups: "(m AND AllGroups = m) = (m AND NOT AllGroups = 0)" for m :: ProbeGroup
proof
  assume "m AND AllGroups = m"
  then have "m AND NOT AllGroups = (m AND AllGroups) AND NOT AllGroups" by simp
  also have "\<dots> = 0" by (simp add: and.assoc)
  finally show "m AND NOT AllGroups = 0" .
next
  assume h: "m AND NOT AllGroups = 0"
  have "m = (m AND AllGroups) OR (m AND NOT AllGroups)"
    by (simp flip: bit.conj_disj_distrib)
  with h show "m AND AllGroups = m" by simp
qed

text \<open>
  C6. A mask that is non-zero and has no bit outside the four defined flags passes
  \<open>validate\<close>; the zero mask fails with \<open>errEmptyGroup\<close>; a mask with a bit outside
  the four defined flags fails with \<open>errMissGroup\<close> (the package's invalid-group error).
\<close>

theorem validate_cases:
  fixes m :: ProbeGroup
  shows "(m \<noteq> 0 \<and> m AND NOT (GroupCommon OR GroupStartup OR GroupLive OR GroupReady) = 0
            \<longrightarrow> validate m = None)
       \<and> validate 0 = Some errEmptyGroup
       \<and> (m AND NOT (GroupCommon OR GroupStartup OR GroupLive OR GroupReady) \<noteq> 0
            \<longrightarrow> validate m = Some errMissGroup)"
proof -
  have zero: "m = 0 \<Longrightarrow> m AND NOT AllGroups = 0" by simp
  show ?thesis
    unfolding AllGroups_def [symmetric]
    using zero by (auto simp: validate_def subset_AllGroups)
qed

theorem validate_cases_witness:
  "((5 :: ProbeGroup) \<noteq> 0 \<and> 5 AND NOT (GroupCommon OR GroupStartup OR GroupLive OR GroupReady) = 0)
   \<and> validate 5 = None
   \<and> (251 :: ProbeGroup) AND NOT (GroupCommon OR GroupStartup OR GroupLive OR GroupReady) \<noteq> 0
   \<and> validate 251 = Some errMissGroup"
  using validate_cases [of 5] validate_cases [of 251]
  by (simp add: Group_values)

lemma nonNil_filter: "nonNil es = map the (filter (\<lambda>e. e \<noteq> None) es)"
  by (induction es rule: nonNil.induct) simp_all

lemma nonNil_empty: "(nonNil es = []) = (\<forall>e\<in>set es. e = None)"
  by (induction es rule: nonNil.induct) simp_all

lemma errors_Join_None: "(errors_Join es = None) = (\<forall>e\<in>set es. e = None)"
  by (simp add: errors_Join_def Let_def nonNil_empty)

lemma errors_Join_Some: "errors_Join es \<noteq> None \<Longrightarrow> errors_Join es = Some (joinError (nonNil es))"
  by (simp add: errors_Join_def Let_def split: if_splits)

lemma accureNoError_loop_nil: "None \<in> set es \<Longrightarrow> accureNoError_loop es list = None"
  by (induction es) auto

lemma accureNoError_loop_no_nil: "None \<notin> set es \<Longrightarrow> accureNoError_loop es list = errors_Join list"
  by (induction es) auto

lemma health_selectedBucket:
  "health hr g p = (if p then accureError (selectedBucket hr g) else accureNoError (selectedBucket hr g))"
  by (simp add: health_def selectedBucket_def Let_def)

lemma selectedBucket_single:
  "selectedBucket hr GroupStartup = startUp hr"
  "selectedBucket hr GroupLive = live hr"
  "selectedBucket hr GroupReady = ready hr"
  by (simp_all add: selectedBucket_def Group_values)

text \<open>
  C1, as amended. With \<open>needAllHealthy\<close> true, \<open>health\<close> returns \<open>nil\<close> exactly when
  every outcome of the selected bucket is \<open>nil\<close>, and otherwise the join of the non-nil
  outcomes. With \<open>needAllHealthy\<close> false it returns \<open>nil\<close> when some outcome of the
  selected bucket is \<open>nil\<close> and also when the bucket is empty; only for a non-empty
  bucket without a \<open>nil\<close> outcome it returns the join of all outcomes.
\<close>
theorem health_policy:
  "(health hr g True = None \<longleftrightarrow> (\<forall>e\<in>set (selectedBucket hr g). e = None))
   \<and> (health hr g True \<noteq> None \<longrightarrow>
        health hr g True =
          Some (joinError (map the (filter (\<lambda>e. e \<noteq> None) (selectedBucket hr g)))))
   \<and> (None \<in> set (selectedBucket hr g) \<or> selectedBucket hr g = [] \<longrightarrow>
        health hr g False = None)
   \<and> (None \<notin> set (selectedBucket hr g) \<and> selectedBucket hr g \<noteq> [] \<longrightarrow>
        health hr g False = Some (joinError (map the (selectedBucket hr g))))"
proof -
  let ?l = "selectedBucket hr g"
  have a: "health hr g True = None \<longleftrightarrow> (\<forall>e\<in>set ?l. e = None)"
    by (simp add: health_selectedBucket accureError_def errors_Join_None)
  have b: "health hr g True \<noteq> None \<longrightarrow>
        health hr g True = Some (joinError (map the (filter (\<lambda>e. e \<noteq> None) ?l)))"
    using errors_Join_Some [of ?l]
    by (simp add: health_selectedBucket accureError_def nonNil_filter)
  have c: "None \<in> set ?l \<or> ?l = [] \<longrightarrow> health hr g False = None"
    by (auto simp: health_selectedBucket accureNoError_def accureNoError_loop_nil errors_Join_def)
  have d: "None \<notin> set ?l \<and> ?l \<noteq> [] \<longrightarrow> health hr g False = Some (joinError (map the ?l))"
  proof (intro impI, elim conjE)
    assume n: "None \<notin> set ?l" and ne: "?l \<noteq> []"
    from n have f: "filter (\<lambda>e. e \<noteq> None) ?l = ?l" by (metis (mono_tags, lifting) filter_True)
    from n ne have "nonNil ?l \<noteq> []" by (cases ?l) (auto simp: nonNil_empty)
    with n f show "health hr g False = Some (joinError (map the ?l))"
      by (simp add: health_selectedBucket accureNoError_def accureNoError_loop_no_nil
          errors_Join_def Let_def nonNil_filter)
  qed
  from a b c d show ?thesis by blast
qed

theorem health_policy_witness:
  "health \<lparr>startUp = [], live = [Some (CheckFailure ''db''), Some (CheckFailure ''mq'')],
       ready = [Some (CheckFailure ''db''), None]\<rparr> GroupLive True \<noteq> None
   \<and> health \<lparr>startUp = [], live = [Some (CheckFailure ''db''), Some (CheckFailure ''mq'')],
       ready = [Some (CheckFailure ''db''), None]\<rparr> GroupLive True
       = Some (joinError [CheckFailure ''db'', CheckFailure ''mq''])
   \<and> None \<notin> set (selectedBucket \<lparr>startUp = [], live = [Some (CheckFailure ''db''), Some (CheckFailure ''mq'')],
       ready = [Some (CheckFailure ''db''), None]\<rparr> GroupLive)
   \<and> selectedBucket \<lparr>startUp = [], live = [Some (CheckFailure ''db''), Some (CheckFailure ''mq'')],
       ready = [Some (CheckFailure ''db''), None]\<rparr> GroupLive \<noteq> []
   \<and> health \<lparr>startUp = [], live = [Some (CheckFailure ''db''), Some (CheckFailure ''mq'')],
       ready = [Some (CheckFailure ''db''), None]\<rparr> GroupLive False
       = Some (joinError [CheckFailure ''db'', CheckFailure ''mq''])
   \<and> None \<in> set (selectedBucket \<lparr>startUp = [], live = [Some (CheckFailure ''db''), Some (CheckFailure ''mq'')],
       ready = [Some (CheckFailure ''db''), None]\<rparr> GroupReady)
   \<and> health \<lparr>startUp = [], live = [Some (CheckFailure ''db''), Some (CheckFailure ''mq'')],
       ready = [Some (CheckFailure ''db''), None]\<rparr> GroupReady False = None
   \<and> selectedBucket \<lparr>startUp = [], live = [Some (CheckFailure ''db''), Some (CheckFailure ''mq'')],
       ready = [Some (CheckFailure ''db''), None]\<rparr> GroupStartup = []
   \<and> health \<lparr>startUp = [], live = [Some (CheckFailure ''db''), Some (CheckFailure ''mq'')],
       ready = [Some (CheckFailure ''db''), None]\<rparr> GroupStartup True = None
   \<and> health \<lparr>startUp = [], live = [Some (CheckFailure ''db''), Some (CheckFailure ''mq'')],
       ready = [Some (CheckFailure ''db''), None]\<rparr> GroupStartup False = None"
  using
    health_policy [of "\<lparr>startUp = [], live = [Some (CheckFailure ''db''), Some (CheckFailure ''mq'')],
       ready = [Some (CheckFailure ''db''), None]\<rparr>" GroupLive]
    health_policy [of "\<lparr>startUp = [], live = [Some (CheckFailure ''db''), Some (CheckFailure ''mq'')],
       ready = [Some (CheckFailure ''db''), None]\<rparr>" GroupReady]
    health_policy [of "\<lparr>startUp = [], live = [Some (CheckFailure ''db''), Some (CheckFailure ''mq'')],
       ready = [Some (CheckFailure ''db''), None]\<rparr>" GroupStartup]
  by (simp add: selectedBucket_def Group_values)

text \<open>
  C1 as stated fails on an empty bucket: after a poll cycle of an inspector without
  targets the live bucket has no \<open>nil\<close> outcome, yet the query with
  \<open>needAllHealthy\<close> false returns \<open>nil\<close>, not an error.
\<close>
theorem health_any_empty_counterexample:
  "None \<notin> set (selectedBucket (data (check (New ([] :: nat HealthCheckTarget list)) [])) GroupLive)
   \<and> CheckGroup (check (New ([] :: nat HealthCheckTarget list)) []) GroupLive False = None"
  by (simp add: check_def New_def CheckGroup_def get_def health_def selectedBucket_def
      accureNoError_def errors_Join_def Group_values)

text \<open>
  C2. In a freshly constructed inspector each of the three buckets holds exactly the
  "not yet checked" sentinel, and a query of Startup, Live or Ready returns a non-nil
  error (the join of the sentinel) under either policy \<open>p\<close>.
\<close>
theorem New_not_yet_checked:
  "startUp (data (New ts)) = [Some errNoYetChecked]
   \<and> live (data (New ts)) = [Some errNoYetChecked]
   \<and> ready (data (New ts)) = [Some errNoYetChecked]
   \<and> CheckGroup (New ts) GroupStartup p = Some (joinError [errNoYetChecked])
   \<and> CheckGroup (New ts) GroupLive p = Some (joinError [errNoYetChecked])
   \<and> CheckGroup (New ts) GroupReady p = Some (joinError [errNoYetChecked])"
  by (simp add: New_def newHealthResult_def CheckGroup_def get_def health_def Let_def
      accureError_def accureNoError_def errors_Join_def Group_values)

text \<open>
  C4. A query evaluates one bucket, chosen by priority: the live bucket when the Live bit
  is set, else the ready bucket when the Ready bit is set, else the startup bucket when
  the Startup bit is set; the other bits of a combined mask do not matter, the result is
  that of querying the chosen group alone.
\<close>
theorem health_priority:
  "(g AND GroupLive \<noteq> 0 \<longrightarrow>
      health hr g p = (if p then accureError (live hr) else accureNoError (live hr))
      \<and> health hr g p = health hr GroupLive p)
   \<and> (g AND GroupLive = 0 \<and> g AND GroupReady \<noteq> 0 \<longrightarrow>
      health hr g p = (if p then accureError (ready hr) else accureNoError (ready hr))
      \<and> health hr g p = health hr GroupReady p)
   \<and> (g AND GroupLive = 0 \<and> g AND GroupReady = 0 \<and> g AND GroupStartup \<noteq> 0 \<longrightarrow>
      health hr g p = (if p then accureError (startUp hr) else accureNoError (startUp hr))
      \<and> health hr g p = health hr GroupStartup p)"
  by (simp add: health_def Group_values)

theorem health_priority_witness:
  "((GroupStartup OR GroupLive OR GroupReady) AND GroupLive \<noteq> 0
    \<and> health \<lparr>startUp = [None], live = [Some (CheckFailure ''db'')], ready = [None]\<rparr>
         (GroupStartup OR GroupLive OR GroupReady) True = Some (joinError [CheckFailure ''db'']))
   \<and> ((GroupStartup OR GroupReady) AND GroupLive = 0
    \<and> (GroupStartup OR GroupReady) AND GroupReady \<noteq> 0
    \<and> health \<lparr>startUp = [None], live = [None], ready = [Some (CheckFailure ''db'')]\<rparr>
         (GroupStartup OR GroupReady) True = Some (joinError [CheckFailure ''db'']))
   \<and> ((GroupCommon OR GroupStartup) AND GroupLive = 0
    \<and> (GroupCommon OR GroupStartup) AND GroupReady = 0
    \<and> (GroupCommon OR GroupStartup) AND GroupStartup \<noteq> 0
    \<and> health \<lparr>startUp = [Some (CheckFailure ''db'')], live = [None], ready = [None]\<rparr>
         (GroupCommon OR GroupStartup) True = Some (joinError [CheckFailure ''db'']))"
  using
    health_priority [of "GroupStartup OR GroupLive OR GroupReady"
      "\<lparr>startUp = [None], live = [Some (CheckFailure ''db'')], ready = [None]\<rparr>" True]
    health_priority [of "GroupStartup OR GroupReady"
      "\<lparr>startUp = [None], live = [None], ready = [Some (CheckFailure ''db'')]\<rparr>" True]
    health_priority [of "GroupCommon OR GroupStartup"
      "\<lparr>startUp = [Some (CheckFailure ''db'')], live = [None], ready = [None]\<rparr>" True]
  by (simp add: Group_values accureError_def errors_Join_def)

lemma foldl_add_startUp:
  "startUp (foldl add hr rs) =
     startUp hr @ map err (filter (\<lambda>r. Groups (target r) AND GroupStartup \<noteq> 0) rs)"
  by (induction rs arbitrary: hr) (simp_all add: add_def Let_def)

lemma foldl_add_live:
  "live (foldl add hr rs) =
     live hr @ map err (filter (\<lambda>r. Groups (target r) AND GroupLive \<noteq> 0) rs)"
  by (induction rs arbitrary: hr) (simp_all add: add_def Let_def)

lemma foldl_add_ready:
  "ready (foldl add hr rs) =
     ready hr @ map err (filter (\<lambda>r. Groups (target r) AND GroupReady \<noteq> 0) rs)"
  by (induction rs arbitrary: hr) (simp_all add: add_def Let_def)

text \<open>
  C5. Merging one check result appends its outcome to the startup, live and ready bucket
  exactly when the Startup, Live or Ready bit of the target's mask is set, each bucket
  independently of the others; the Common bit adds to no bucket. Over a whole poll cycle
  each bucket of the published snapshot is therefore the outcomes, in arrival order, of
  the results whose mask has the bucket's bit.
\<close>

theorem add_buckets:
  "startUp (add hr res) =
     (if Groups (target res) AND GroupStartup \<noteq> 0 then startUp hr @ [err res] else startUp hr)
   \<and> live (add hr res) =
     (if Groups (target res) AND GroupLive \<noteq> 0 then live hr @ [err res] else live hr)
   \<and> ready (add hr res) =
     (if Groups (target res) AND GroupReady \<noteq> 0 then ready hr @ [err res] else ready hr)
   \<and> add hr (res\<lparr>target := (target res)\<lparr>Groups := Groups (target res) OR GroupCommon\<rparr>\<rparr>)
       = add hr res
   \<and> add hr (res\<lparr>target := (target res)\<lparr>Groups := GroupCommon\<rparr>\<rparr>) = hr
   \<and> startUp (data (check i rs)) =
       map err (filter (\<lambda>r. Groups (target r) AND GroupStartup \<noteq> 0) rs)
   \<and> live (data (check i rs)) =
       map err (filter (\<lambda>r. Groups (target r) AND GroupLive \<noteq> 0) rs)
   \<and> ready (data (check i rs)) =
       map err (filter (\<lambda>r. Groups (target r) AND GroupReady \<noteq> 0) rs)"
proof -
  have c: "(x OR GroupCommon) AND GroupStartup = x AND GroupStartup"
          "(x OR GroupCommon) AND GroupLive = x AND GroupLive"
          "(x OR GroupCommon) AND GroupReady = x AND GroupReady" for x :: ProbeGroup
    by (simp_all add: Group_values bit.conj_disj_distrib2)
  have a: "add hr (res\<lparr>target := (target res)\<lparr>Groups := GroupCommon\<rparr>\<rparr>) = hr"
    by (simp add: add_def Let_def Group_values)
  have p: "data (check i rs) = foldl add \<lparr>startUp = [], live = [], ready = []\<rparr> rs"
    by (simp add: check_def Let_def)
  show ?thesis
    by (simp add: a p foldl_add_startUp foldl_add_live foldl_add_ready)
       (simp add: add_def Let_def c)
qed

text \<open>
  C10. For a mask with none of the Live, Ready and Startup bits the query selects no
  bucket and returns \<open>nil\<close> under both policies. The mask is not validated: the zero
  mask and a mask outside the defined flags, which \<open>validate\<close> rejects, are answered
  with \<open>nil\<close> too.
\<close>
theorem health_no_bucket:
  "(g AND GroupLive = 0 \<and> g AND GroupReady = 0 \<and> g AND GroupStartup = 0 \<longrightarrow>
      selectedBucket (data i) g = [] \<and> CheckGroup i g True = None \<and> CheckGroup i g False = None)
   \<and> validate 0 = Some errEmptyGroup \<and> CheckGroup i 0 p = None
   \<and> validate 16 = Some errMissGroup \<and> CheckGroup i 16 p = None"
  by (simp add: CheckGroup_def get_def health_def selectedBucket_def accureError_def
      accureNoError_def errors_Join_def validate_def Group_values)

theorem health_no_bucket_witness:
  "GroupCommon AND GroupLive = 0 \<and> GroupCommon AND GroupReady = 0
   \<and> GroupCommon AND GroupStartup = 0
   \<and> CheckGroup (New ([] :: nat HealthCheckTarget list)) GroupCommon True = None
   \<and> CheckGroup (New ([] :: nat HealthCheckTarget list)) GroupCommon False = None"
  using health_no_bucket [of GroupCommon "New ([] :: nat HealthCheckTarget list)"]
  by (simp add: Group_values)


lemma WithTargets_loop_None:
  "(WithTargets_loop ts = None) = (\<forall>t\<in>set ts. validate (Groups t) = None)"
  by (induction ts) (auto split: option.splits)

lemma WithTargets_loop_Some:
  "WithTargets_loop ts = Some e \<Longrightarrow>
     \<exists>pre t post. ts = pre @ t # post \<and> (\<forall>u\<in>set pre. validate (Groups u) = None)
        \<and> validate (Groups t) = Some e"
proof (induction ts)
  case Nil
  then show ?case by simp
next
  case (Cons a ts)
  show ?case
  proof (cases "validate (Groups a)")
    case None
    with Cons.prems have "WithTargets_loop ts = Some e" by simp
    from Cons.IH [OF this] obtain pre t post where
      "ts = pre @ t # post" "\<forall>u\<in>set pre. validate (Groups u) = None"
      "validate (Groups t) = Some e" by blast
    with None have "a # ts = (a # pre) @ t # post \<and>
        (\<forall>u\<in>set (a # pre). validate (Groups u) = None) \<and> validate (Groups t) = Some e"
      by simp
    then show ?thesis by blast
  next
    case (Some x)
    with Cons.prems have "x = e" by simp
    with Some have "a # ts = [] @ a # ts \<and> (\<forall>u\<in>set []. validate (Groups u) = None)
        \<and> validate (Groups a) = Some e" by simp
    then show ?thesis by blast
  qed
qed

lemma validate_range: "validate g \<in> {None, Some errEmptyGroup, Some errMissGroup}"
  by (simp add: validate_def)

text \<open>
  C7. \<open>WithTargets\<close> without targets fails with \<open>errMissTargets\<close>. When some target's
  mask is invalid it fails with \<open>errEmptyGroup\<close> or \<open>errMissGroup\<close>, the error that
  \<open>validate\<close> gives for the first invalid target. When all masks are valid it succeeds
  and the registry is the list supplied. Whenever it fails the inspector, and so the
  registry, is unchanged.
\<close>
theorem WithTargets_cases:
  "WithTargets [] i = (Some errMissTargets, i)
   \<and> (ts \<noteq> [] \<and> (\<exists>t\<in>set ts. validate (Groups t) \<noteq> None) \<longrightarrow>
        (fst (WithTargets ts i) = Some errEmptyGroup \<or> fst (WithTargets ts i) = Some errMissGroup)
        \<and> (\<exists>pre t post. ts = pre @ t # post
              \<and> (\<forall>u\<in>set pre. validate (Groups u) = None)
              \<and> fst (WithTargets ts i) = validate (Groups t))
        \<and> snd (WithTargets ts i) = i)
   \<and> (ts \<noteq> [] \<and> (\<forall>t\<in>set ts. validate (Groups t) = None) \<longrightarrow>
        WithTargets ts i = (None, i\<lparr>targets := ts\<rparr>))
   \<and> (fst (WithTargets ts i) \<noteq> None \<longrightarrow> snd (WithTargets ts i) = i)"
proof -
  have a: "WithTargets [] i = (Some errMissTargets, i)"
    by (simp add: WithTargets_def)
  have b: "fst (WithTargets ts i) = Some errEmptyGroup \<or> fst (WithTargets ts i) = Some errMissGroup"
      "\<exists>pre t post. ts = pre @ t # post
              \<and> (\<forall>u\<in>set pre. validate (Groups u) = None)
              \<and> fst (WithTargets ts i) = validate (Groups t)"
      "snd (WithTargets ts i) = i"
    if ne: "ts \<noteq> []" and bad: "\<exists>t\<in>set ts. validate (Groups t) \<noteq> None"
  proof -
    from bad have "WithTargets_loop ts \<noteq> None" by (simp add: WithTargets_loop_None)
    then obtain e where e: "WithTargets_loop ts = Some e" by blast
    with ne have w: "WithTargets ts i = (Some e, i)" by (simp add: WithTargets_def)
    from WithTargets_loop_Some [OF e] obtain pre t post where
      d: "ts = pre @ t # post" "\<forall>u\<in>set pre. validate (Groups u) = None"
      "validate (Groups t) = Some e" by blast
    from d(3) validate_range [of "Groups t"]
    have "e = errEmptyGroup \<or> e = errMissGroup" by auto
    with w show "fst (WithTargets ts i) = Some errEmptyGroup \<or> fst (WithTargets ts i) = Some errMissGroup"
      by auto
    from w d show "\<exists>pre t post. ts = pre @ t # post
              \<and> (\<forall>u\<in>set pre. validate (Groups u) = None)
              \<and> fst (WithTargets ts i) = validate (Groups t)"
      by (metis fst_conv)
    from w show "snd (WithTargets ts i) = i" by simp
  qed
  have c: "ts \<noteq> [] \<and> (\<forall>t\<in>set ts. validate (Groups t) = None) \<longrightarrow>
        WithTargets ts i = (None, i\<lparr>targets := ts\<rparr>)"
    by (simp add: WithTargets_def WithTargets_loop_None [symmetric])
  have d: "fst (WithTargets ts i) \<noteq> None \<longrightarrow> snd (WithTargets ts i) = i"
    by (simp add: WithTargets_def split: option.splits)
  from a b c d show ?thesis by blast
qed

theorem WithTargets_cases_witness:
  "WithTargets [] (New [\<lparr>Service = ''old'', Groups = GroupLive\<rparr>])
     = (Some errMissTargets, New [\<lparr>Service = ''old'', Groups = GroupLive\<rparr>])
   \<and> validate (Groups \<lparr>Service = ''mq'', Groups = 0\<rparr>) \<noteq> None
   \<and> WithTargets [\<lparr>Service = ''db'', Groups = GroupReady\<rparr>, \<lparr>Service = ''mq'', Groups = 0\<rparr>]
       (New [\<lparr>Service = ''old'', Groups = GroupLive\<rparr>])
     = (Some errEmptyGroup, New [\<lparr>Service = ''old'', Groups = GroupLive\<rparr>])
   \<and> validate (Groups \<lparr>Service = ''mq'', Groups = 16\<rparr>) \<noteq> None
   \<and> WithTargets [\<lparr>Service = ''db'', Groups = GroupReady\<rparr>, \<lparr>Service = ''mq'', Groups = 16\<rparr>]
       (New [\<lparr>Service = ''old'', Groups = GroupLive\<rparr>])
     = (Some errMissGroup, New [\<lparr>Service = ''old'', Groups = GroupLive\<rparr>])
   \<and> validate (Groups \<lparr>Service = ''db'', Groups = GroupReady\<rparr>) = None
   \<and> targets (snd (WithTargets [\<lparr>Service = ''db'', Groups = GroupReady\<rparr>]
       (New [\<lparr>Service = ''old'', Groups = GroupLive\<rparr>])))
     = [\<lparr>Service = ''db'', Groups = GroupReady\<rparr>]"
  using
    WithTargets_cases [of "New [\<lparr>Service = ''old'', Groups = GroupLive\<rparr>]"
      "[\<lparr>Service = ''db'', Groups = GroupReady\<rparr>, \<lparr>Service = ''mq'', Groups = 0\<rparr>]"]
    WithTargets_cases [of "New [\<lparr>Service = ''old'', Groups = GroupLive\<rparr>]"
      "[\<lparr>Service = ''db'', Groups = GroupReady\<rparr>, \<lparr>Service = ''mq'', Groups = 16\<rparr>]"]
    WithTargets_cases [of "New [\<lparr>Service = ''old'', Groups = GroupLive\<rparr>]"
      "[\<lparr>Service = ''db'', Groups = GroupReady\<rparr>]"]
  by (simp add: WithTargets_def validate_def Group_values)

text \<open>
  C9. On a fresh response writer the handler writes status 503 when the group query
  returns \<open>nil\<close> and status 200 when it returns an error; the body is what the formatter
  makes of the query's result, with the default formatter \<open>OK\<close> for \<open>nil\<close> and
  \<open>Unhealthy\<close> for an error.
\<close>
theorem HealthHandler_status:
  "(CheckGroup i g p = None \<longrightarrow>
      HealthHandler i g p f \<lparr>status = None, body = []\<rparr>
        = \<lparr>status = Some 503, body = (case f of None \<Rightarrow> ''OK'' | Some h \<Rightarrow> h None)\<rparr>)
   \<and> (CheckGroup i g p \<noteq> None \<longrightarrow>
      HealthHandler i g p f \<lparr>status = None, body = []\<rparr>
        = \<lparr>status = Some 200,
           body = (case f of None \<Rightarrow> ''Unhealthy'' | Some h \<Rightarrow> h (CheckGroup i g p))\<rparr>)"
  by (auto simp: HealthHandler_def Let_def WriteHeader_def Write_def DefResponseProcessor_def
      StatusOK_def StatusServiceUnavailable_def split: option.splits)

theorem HealthHandler_status_witness:
  "CheckGroup (check (New [\<lparr>Service = ''db'', Groups = GroupReady\<rparr>])
       [\<lparr>target = \<lparr>Service = ''db'', Groups = GroupReady\<rparr>, err = None\<rparr>]) GroupReady True = None
   \<and> HealthHandler (check (New [\<lparr>Service = ''db'', Groups = GroupReady\<rparr>])
       [\<lparr>target = \<lparr>Service = ''db'', Groups = GroupReady\<rparr>, err = None\<rparr>]) GroupReady True None
       \<lparr>status = None, body = []\<rparr> = \<lparr>status = Some 503, body = ''OK''\<rparr>
   \<and> CheckGroup (New [\<lparr>Service = ''db'', Groups = GroupReady\<rparr>]) GroupReady True \<noteq> None
   \<and> HealthHandler (New [\<lparr>Service = ''db'', Groups = GroupReady\<rparr>]) GroupReady True None
       \<lparr>status = None, body = []\<rparr> = \<lparr>status = Some 200, body = ''Unhealthy''\<rparr>"
  using
    HealthHandler_status [of "check (New [\<lparr>Service = ''db'', Groups = GroupReady\<rparr>])
       [\<lparr>target = \<lparr>Service = ''db'', Groups = GroupReady\<rparr>, err = None\<rparr>]" GroupReady True None]
    HealthHandler_status [of "New [\<lparr>Service = ''db'', Groups = GroupReady\<rparr>]" GroupReady True None]
  by (simp add: CheckGroup_def get_def check_def New_def newHealthResult_def add_def health_def
      accureError_def errors_Join_def Let_def Group_values)


lemma selectedBucket_check:
  assumes "B \<in> {GroupStartup, GroupLive, GroupReady}"
  shows "selectedBucket (data (check i rs)) B =
           map err (filter (\<lambda>r. Groups (target r) AND B \<noteq> 0) rs)"
proof -
  from assms consider "B = GroupStartup" | "B = GroupLive" | "B = GroupReady" by blast
  then show ?thesis
  proof cases
    case 1
    then show ?thesis
      by (simp add: selectedBucket_single check_def Let_def foldl_add_startUp)
  next
    case 2
    then show ?thesis
      by (simp add: selectedBucket_single check_def Let_def foldl_add_live)
  next
    case 3
    then show ?thesis
      by (simp add: selectedBucket_single check_def Let_def foldl_add_ready)
  qed
qed

lemma CheckGroup_selectedBucket:
  "CheckGroup i g p =
     (if p then accureError (selectedBucket (data i) g)
      else accureNoError (selectedBucket (data i) g))"
  by (simp add: CheckGroup_def get_def health_selectedBucket)

lemma data_applyOption: "data (snd (applyOption c i)) = data i"
  by (cases c) (simp_all add: WithTargets_def WithCheckPeriod_def split: option.splits)

lemma data_configure: "data (configure i cs) = data i"
  by (induction cs arbitrary: i) (simp_all add: data_applyOption)

text \<open>
  C8. Let \<open>B\<close> be one of Startup, Live, Ready and \<open>r\<close> the result of a target whose
  mask has no bit in common with \<open>B\<close>. The bucket of \<open>B\<close> after a poll cycle, and the
  answer of a query of \<open>B\<close> under either policy \<open>p\<close>, are the same with \<open>r\<close> among the
  merged results as without it, and do not change with the outcome \<open>r\<close> carries.
\<close>
theorem check_isolation:
  "B \<in> {GroupStartup, GroupLive, GroupReady} \<Longrightarrow> Groups (target r) AND B = 0 \<Longrightarrow>
     selectedBucket (data (check i (rs1 @ r # rs2))) B
       = selectedBucket (data (check i' (rs1 @ rs2))) B
     \<and> CheckGroup (check i (rs1 @ r # rs2)) B p = CheckGroup (check i' (rs1 @ rs2)) B p
     \<and> CheckGroup (check i (rs1 @ r\<lparr>err := e\<rparr> # rs2)) B p
         = CheckGroup (check i (rs1 @ r # rs2)) B p"
  by (simp add: CheckGroup_selectedBucket selectedBucket_check)

theorem check_isolation_witness:
  "GroupLive \<in> {GroupStartup, GroupLive, GroupReady}
   \<and> Groups (target \<lparr>target = \<lparr>Service = ''db'', Groups = GroupReady OR GroupStartup\<rparr>,
                       err = Some (CheckFailure ''down'')\<rparr>) AND GroupLive = 0
   \<and> CheckGroup (check (New [\<lparr>Service = ''mq'', Groups = GroupLive\<rparr>,
                              \<lparr>Service = ''db'', Groups = GroupReady OR GroupStartup\<rparr>])
        ([\<lparr>target = \<lparr>Service = ''mq'', Groups = GroupLive\<rparr>, err = None\<rparr>]
          @ \<lparr>target = \<lparr>Service = ''db'', Groups = GroupReady OR GroupStartup\<rparr>,
               err = Some (CheckFailure ''down'')\<rparr> # [])) GroupLive True
     = CheckGroup (check (New [\<lparr>Service = ''mq'', Groups = GroupLive\<rparr>])
        ([\<lparr>target = \<lparr>Service = ''mq'', Groups = GroupLive\<rparr>, err = None\<rparr>] @ [])) GroupLive True
   \<and> CheckGroup (check (New [\<lparr>Service = ''mq'', Groups = GroupLive\<rparr>])
        [\<lparr>target = \<lparr>Service = ''mq'', Groups = GroupLive\<rparr>, err = None\<rparr>]) GroupLive True = None"
proof -
  have m: "GroupLive \<in> {GroupStartup, GroupLive, GroupReady}" by simp
  have d: "Groups (target \<lparr>target = \<lparr>Service = ''db'', Groups = GroupReady OR GroupStartup\<rparr>,
                       err = Some (CheckFailure ''down'')\<rparr>) AND GroupLive = 0"
    by (simp add: Group_values)
  have v: "CheckGroup (check (New [\<lparr>Service = ''mq'', Groups = GroupLive\<rparr>])
        [\<lparr>target = \<lparr>Service = ''mq'', Groups = GroupLive\<rparr>, err = None\<rparr>]) GroupLive True = None"
    by (simp add: CheckGroup_def get_def check_def add_def health_def accureError_def
        errors_Join_def Let_def Group_values)
  from m d v check_isolation [OF m d,
      of "New [\<lparr>Service = ''mq'', Groups = GroupLive\<rparr>,
               \<lparr>Service = ''db'', Groups = GroupReady OR GroupStartup\<rparr>]"
         "[\<lparr>target = \<lparr>Service = ''mq'', Groups = GroupLive\<rparr>, err = None\<rparr>]" "[]"
         "New [\<lparr>Service = ''mq'', Groups = GroupLive\<rparr>]" True]
  show ?thesis by simp
qed

text \<open>
  C3, as amended. Before the first poll, that is after construction and any sequence of
  options, each bucket holds exactly the "not yet checked" sentinel and a query of
  Startup, Live or Ready returns a non-nil error under either policy. A poll cycle
  builds its snapshot from empty buckets and adds no sentinel: after a poll over a
  registry whose targets do not cover a group, the bucket of that group is empty and a
  query of it returns \<open>nil\<close> under either policy.
\<close>
theorem snapshot_sentinel:
  "B \<in> {GroupStartup, GroupLive, GroupReady} \<Longrightarrow>
     (selectedBucket (data (configure (New ts) cs)) B = [Some errNoYetChecked]
      \<and> CheckGroup (configure (New ts) cs) B p = Some (joinError [errNoYetChecked]))
     \<and> (completes i rs \<and> (\<forall>t\<in>set (targets i). Groups t AND B = 0) \<longrightarrow>
          selectedBucket (data (check i rs)) B = []
          \<and> CheckGroup (check i rs) B p = None)"
proof -
  assume B: "B \<in> {GroupStartup, GroupLive, GroupReady}"
  have s: "selectedBucket (data (configure (New ts) cs)) B = [Some errNoYetChecked]"
    using B by (auto simp: data_configure New_def newHealthResult_def selectedBucket_def Group_values)
  have q: "CheckGroup (configure (New ts) cs) B p = Some (joinError [errNoYetChecked])"
    by (simp add: CheckGroup_selectedBucket s accureError_def accureNoError_def errors_Join_def)
  have e: "selectedBucket (data (check i rs)) B = []"
    if c: "completes i rs" and u: "\<forall>t\<in>set (targets i). Groups t AND B = 0"
  proof -
    from c have "set (map target rs) = set (targets i)"
      unfolding completes_def by (rule mset_eq_setD)
    with u have "\<forall>r\<in>set rs. Groups (target r) AND B = 0" by auto
    then show ?thesis by (simp add: selectedBucket_check [OF B] filter_empty_conv)
  qed
  have n: "CheckGroup (check i rs) B p = None"
    if "selectedBucket (data (check i rs)) B = []"
    using that by (simp add: CheckGroup_selectedBucket accureError_def accureNoError_def errors_Join_def)
  from s q e n show ?thesis by blast
qed

theorem snapshot_sentinel_witness:
  "GroupLive \<in> {GroupStartup, GroupLive, GroupReady}
   \<and> CheckGroup (configure (New [\<lparr>Service = ''db'', Groups = GroupReady\<rparr>])
        [CallWithCheckPeriod 5, CallWithTargets [\<lparr>Service = ''mq'', Groups = GroupLive\<rparr>]])
        GroupLive False = Some (joinError [errNoYetChecked])
   \<and> completes (New [\<lparr>Service = ''db'', Groups = GroupReady\<rparr>])
        [\<lparr>target = \<lparr>Service = ''db'', Groups = GroupReady\<rparr>, err = None\<rparr>]
   \<and> Groups \<lparr>Service = ''db'', Groups = GroupReady\<rparr> AND GroupLive = 0
   \<and> CheckGroup (check (New [\<lparr>Service = ''db'', Groups = GroupReady\<rparr>])
        [\<lparr>target = \<lparr>Service = ''db'', Groups = GroupReady\<rparr>, err = None\<rparr>]) GroupLive False = None"
proof -
  have m: "GroupLive \<in> {GroupStartup, GroupLive, GroupReady}" by simp
  have c: "completes (New [\<lparr>Service = ''db'', Groups = GroupReady\<rparr>])
        [\<lparr>target = \<lparr>Service = ''db'', Groups = GroupReady\<rparr>, err = None\<rparr>]"
    by (simp add: completes_def New_def)
  have d: "Groups \<lparr>Service = ''db'', Groups = GroupReady\<rparr> AND GroupLive = 0"
    by (simp add: Group_values)
  have u: "\<forall>t\<in>set (targets (New [\<lparr>Service = ''db'', Groups = GroupReady\<rparr>])). Groups t AND GroupLive = 0"
    using d by (simp add: New_def)
  from m c d u snapshot_sentinel [OF m,
      of "[\<lparr>Service = ''db'', Groups = GroupReady\<rparr>]"
         "[CallWithCheckPeriod 5, CallWithTargets [\<lparr>Service = ''mq'', Groups = GroupLive\<rparr>]]"
         False "New [\<lparr>Service = ''db'', Groups = GroupReady\<rparr>]"
         "[\<lparr>target = \<lparr>Service = ''db'', Groups = GroupReady\<rparr>, err = None\<rparr>]"]
  show ?thesis by simp
qed

text \<open>
  C3 as stated fails after a poll: with a registry of one Ready target the live bucket
  of the published snapshot is empty, holds no sentinel, and the Live query returns
  \<open>nil\<close> under both policies.
\<close>
theorem uncovered_bucket_counterexample:
  "completes (New [\<lparr>Service = ''db'', Groups = GroupReady\<rparr>])
        [\<lparr>target = \<lparr>Service = ''db'', Groups = GroupReady\<rparr>, err = None\<rparr>]
   \<and> live (data (check (New [\<lparr>Service = ''db'', Groups = GroupReady\<rparr>])
        [\<lparr>target = \<lparr>Service = ''db'', Groups = GroupReady\<rparr>, err = None\<rparr>])) = []
   \<and> Some errNoYetChecked \<notin> set (live (data (check (New [\<lparr>Service = ''db'', Groups = GroupReady\<rparr>])
        [\<lparr>target = \<lparr>Service = ''db'', Groups = GroupReady\<rparr>, err = None\<rparr>])))
   \<and> CheckGroup (check (New [\<lparr>Service = ''db'', Groups = GroupReady\<rparr>])
        [\<lparr>target = \<lparr>Service = ''db'', Groups = GroupReady\<rparr>, err = None\<rparr>]) GroupLive True = None
   \<and> CheckGroup (check (New [\<lparr>Service = ''db'', Groups = GroupReady\<rparr>])
        [\<lparr>target = \<lparr>Service = ''db'', Groups = GroupReady\<rparr>, err = None\<rparr>]) GroupLive False = None"
  by (simp add: completes_def New_def check_def add_def CheckGroup_def get_def health_def
      accureError_def accureNoError_def errors_Join_def Let_def Group_values)

end
